theory Spec2Isabelle
  imports Complex_Main
begin

section \<open>Truck and cargo matching: the cost model, the cost matrix and the assignment\<close>

text \<open>
  The development embeds \<^verbatim>\<open>app/utils/time_cost_calculator.py\<close> and
  \<^verbatim>\<open>app/utils/optimizer.py\<close>.

  Conventions of the embedding:
  \<^item> a Python \<^verbatim>\<open>float\<close> is a \<open>real\<close>: arithmetic on floats is written with the
    operations of the reals and its rounding is not modelled; NaN and the infinities have
    no counterpart, except numpy's \<^verbatim>\<open>np.inf\<close> in the matrix, the extra value \<open>Inf\<close>
    of \<open>npfloat\<close>;
  \<^item> a \<^verbatim>\<open>datetime\<close> is the number of microseconds since 0001-01-01 00:00:00, with
    the range Python enforces, and a \<^verbatim>\<open>timedelta\<close> a number of microseconds;
  \<^item> an exception is the \<open>Inl\<close> of a sum type; the first one raised ends the call;
  \<^item> a data frame is the list of its rows, with the default index \<open>0, 1, 2, ...\<close> that
    \<^verbatim>\<open>pandas.read_csv\<close> gives, so that the labels \<^verbatim>\<open>iterrows\<close> yields are positions;
  \<^item> the library functions the code calls (geopy's \<^verbatim>\<open>geodesic\<close>,
    \<^verbatim>\<open>datetime.strptime\<close> with the fixed format, the constructor
    \<^verbatim>\<open>timedelta(hours=...)\<close>, the conversion \<^verbatim>\<open>float(...)\<close> of text, scipy's
    \<^verbatim>\<open>linear_sum_assignment\<close>) are parameters, collected in the record \<open>lib\<close>.
\<close>

subsection \<open>Values\<close>

datatype error =
  NameError | ValueError | TypeError | ZeroDivisionError | OverflowError | IndexError

definition pybind :: "error + 'a \<Rightarrow> ('a \<Rightarrow> error + 'b) \<Rightarrow> error + 'b" where
  "pybind m f = (case m of Inl e \<Rightarrow> Inl e | Inr x \<Rightarrow> f x)"

type_synonym datetime = int
type_synonym timedelta = int

text \<open>\<^verbatim>\<open>datetime.max\<close> is 9999-12-31 23:59:59.999999, day number 3652059.\<close>

definition datetime_max :: datetime where
  "datetime_max = 3652059 * 86400000000 - 1"

text \<open>\<^verbatim>\<open>t - td\<close> for a datetime \<open>t\<close> and a timedelta \<open>td\<close>\<close>

definition datetime_sub :: "datetime \<Rightarrow> timedelta \<Rightarrow> error + datetime" where
  "datetime_sub t td =
     (let r = t - td in if r < 0 \<or> datetime_max < r then Inl OverflowError else Inr r)"

text \<open>
  A timestamp cell of a data frame: the text read from the CSV file, a datetime object, or
  the float NaN that pandas stores for a missing value.
\<close>

datatype cellval = TStr string | TDatetime datetime | TMissing

datatype npfloat = Finite real | Inf

subsection \<open>The libraries\<close>

record lib =
  geodesic :: "real \<times> real \<Rightarrow> real \<times> real \<Rightarrow> error + real"
  strptime :: "string \<Rightarrow> datetime option"
  timedelta_hours :: "real \<Rightarrow> error + timedelta"
  float_of_str :: "string \<Rightarrow> real option"
  linear_sum_assignment :: "npfloat list list \<Rightarrow> error + (nat list \<times> nat list)"

text \<open>
  \<open>geodesic L a b\<close> is \<^verbatim>\<open>geodesic(a, b).kilometers\<close>; \<open>strptime L s\<close> is
  \<^verbatim>\<open>datetime.strptime(s, '%Y-%m-%d %H:%M:%S')\<close>, \<open>None\<close> when it raises ValueError;
  \<open>timedelta_hours L h\<close> is \<^verbatim>\<open>timedelta(hours=h)\<close>, which turns a float number of
  hours into whole microseconds by the library's own floating-point arithmetic and
  rounding, and raises OverflowError outside the range of \<^verbatim>\<open>timedelta\<close>;
  \<open>float_of_str L s\<close> is \<^verbatim>\<open>float(s)\<close> for text, \<open>None\<close> when it raises ValueError.
\<close>

subsection \<open>\<^verbatim>\<open>TimeCostCalculator\<close>\<close>

record TimeCostCalculator =
  standard_speed_kmh :: real

text \<open>The constructor; \<open>None\<close> is the call without the argument.\<close>

definition TimeCostCalculator_init :: "real option \<Rightarrow> TimeCostCalculator" where
  "TimeCostCalculator_init speed =
     \<lparr>standard_speed_kmh = (case speed of None \<Rightarrow> 73 | Some v \<Rightarrow> v)\<rparr>"

definition calculate_travel_time :: "TimeCostCalculator \<Rightarrow> real \<Rightarrow> error + real" where
  "calculate_travel_time self distance_km =
     (if standard_speed_kmh self = 0 then Inl ZeroDivisionError
      else Inr (distance_km / standard_speed_kmh self))"

definition calculate_pickup_time ::
  "lib \<Rightarrow> TimeCostCalculator \<Rightarrow> cellval \<Rightarrow> real \<Rightarrow> error + datetime" where
  "calculate_pickup_time L self dropoff_time distance_km =
     pybind (calculate_travel_time self distance_km) (\<lambda>travel_time.
     pybind (case dropoff_time of
               TStr s \<Rightarrow> (case strptime L s of None \<Rightarrow> Inl ValueError
                          | Some t \<Rightarrow> Inr (TDatetime t))
             | v \<Rightarrow> Inr v) (\<lambda>dropoff_time.
     pybind (timedelta_hours L travel_time) (\<lambda>td.
     case dropoff_time of
       TDatetime t \<Rightarrow> datetime_sub t td
     | _ \<Rightarrow> Inl TypeError)))"

definition calculate_waiting_time :: "lib \<Rightarrow> datetime \<Rightarrow> cellval \<Rightarrow> error + real" where
  "calculate_waiting_time L pickup_time cargo_available_from =
     pybind (case cargo_available_from of
               TStr s \<Rightarrow> (case strptime L s of None \<Rightarrow> Inl ValueError
                          | Some t \<Rightarrow> Inr (TDatetime t))
             | v \<Rightarrow> Inr v) (\<lambda>cargo_available_from.
     case cargo_available_from of
       TDatetime t \<Rightarrow>
         (if pickup_time < t
          then (let wait_time = t - pickup_time
                in Inr (real_of_int wait_time / 1000000 / 3600))
          else Inr 0)
     | _ \<Rightarrow> Inl TypeError)"

definition calculate_total_cost :: "real \<Rightarrow> real \<Rightarrow> real \<Rightarrow> real \<Rightarrow> real" where
  "calculate_total_cost distance_km waiting_hours price_per_km waiting_price_per_hour =
     (let distance_cost = distance_km * price_per_km;
          waiting_cost = waiting_hours * waiting_price_per_hour
      in distance_cost + waiting_cost)"

subsection \<open>The data frames\<close>

text \<open>
  A price cell of the trucks frame: a number, or the text read from the CSV file when the
  column is not numeric throughout. (A missing price is the float NaN, which
  \<^verbatim>\<open>float(...)\<close> passes on; it has no counterpart here.)
\<close>

datatype pricecell = PNum real | PStr string

text \<open>\<^verbatim>\<open>float(v)\<close> on a price cell\<close>

definition float_cell :: "lib \<Rightarrow> pricecell \<Rightarrow> error + real" where
  "float_cell L v =
     (case v of
        PNum x \<Rightarrow> Inr x
      | PStr s \<Rightarrow> (case float_of_str L s of None \<Rightarrow> Inl ValueError | Some x \<Rightarrow> Inr x))"

text \<open>A row of the trucks frame and a row of the cargo frame, with the columns the code reads.\<close>

record truck =
  Latitude_dropoff :: real
  Longitude_dropoff :: real
  Timestamp_dropoff :: cellval
  price_per_km_Eur :: pricecell
  waiting_time_price_per_h_EUR :: pricecell

record cargo =
  Delivery_Latitude :: real
  Delivery_Longitude :: real
  Available_From :: cellval
  Available_To :: cellval

text \<open>The dictionary stored in \<^verbatim>\<open>time_info\<close> for a valid pair.\<close>

record cost_entry =
  info_pickup_time :: datetime
  info_waiting_hours :: real
  info_distance :: real
  info_distance_cost :: real
  info_waiting_cost :: real
  info_total_cost :: real

type_synonym matrix = "npfloat list list"
type_synonym time_info = "nat \<times> nat \<rightharpoonup> cost_entry"

text \<open>\<^verbatim>\<open>np.full((n, m), v)\<close>\<close>

definition np_full :: "nat \<Rightarrow> nat \<Rightarrow> npfloat \<Rightarrow> matrix" where
  "np_full n m v = replicate n (replicate m v)"

text \<open>\<^verbatim>\<open>cost_matrix[i, j] = v\<close>, for \<open>i\<close> and \<open>j\<close> in range\<close>

definition set_cell :: "matrix \<Rightarrow> nat \<Rightarrow> nat \<Rightarrow> npfloat \<Rightarrow> matrix" where
  "set_cell M i j v = M[i := (M ! i)[j := v]]"

text \<open>\<^verbatim>\<open>df.iterrows()\<close>: the rows with their labels\<close>

definition iterrows :: "'a list \<Rightarrow> (nat \<times> 'a) list" where
  "iterrows df = enumerate 0 df"

subsection \<open>\<^verbatim>\<open>optimizer.py\<close>\<close>

text \<open>
  A function body resolves a global name in the namespace of its module when the line
  runs. \<^verbatim>\<open>optimizer.py\<close> binds the names below, by its four import statements and its two
  function definitions; it uses \<^verbatim>\<open>datetime\<close> in \<^verbatim>\<open>calculate_cost_matrix\<close> and never
  binds it. The namespace is a parameter \<open>g\<close> of the embedding, and the lookup of
  \<^verbatim>\<open>datetime\<close> is a step of the loop body; the other global names the two functions use
  are bound by the module itself, and their lookups are not written out.
\<close>

definition optimizer_globals :: "string list" where
  "optimizer_globals =
     [''np'', ''linear_sum_assignment'', ''geodesic'', ''TimeCostCalculator'',
      ''calculate_cost_matrix'', ''optimize_assignments'']"

definition lookup_global :: "string list \<Rightarrow> string \<Rightarrow> error + unit" where
  "lookup_global g name = (if name \<in> set g then Inr () else Inl NameError)"

text \<open>\<^verbatim>\<open>datetime.strptime(v, '%Y-%m-%d %H:%M:%S')\<close> on a cell: only text is accepted.\<close>

definition strptime_cell :: "lib \<Rightarrow> cellval \<Rightarrow> error + datetime" where
  "strptime_cell L v =
     (case v of
        TStr s \<Rightarrow> (case strptime L s of None \<Rightarrow> Inl ValueError | Some t \<Rightarrow> Inr t)
      | _ \<Rightarrow> Inl TypeError)"

text \<open>
  The body of the inner loop, for truck \<open>i\<close> and cargo \<open>j\<close>. The two price cells are
  converted by \<^verbatim>\<open>float(...)\<close> where the arguments of \<^verbatim>\<open>calculate_total_cost\<close> are
  evaluated; the dictionary converts them again, to the same values.
\<close>

definition pair_step ::
  "lib \<Rightarrow> string list \<Rightarrow> TimeCostCalculator \<Rightarrow> nat \<Rightarrow> truck \<Rightarrow> nat \<Rightarrow> cargo \<Rightarrow>
   matrix \<times> time_info \<Rightarrow> error + matrix \<times> time_info" where
  "pair_step L g calculator i truck j cargo st =
     (let truck_loc = (Latitude_dropoff truck, Longitude_dropoff truck);
          cargo_loc = (Delivery_Latitude cargo, Delivery_Longitude cargo)
      in
      pybind (geodesic L truck_loc cargo_loc) (\<lambda>distance.
      pybind (calculate_pickup_time L calculator (Timestamp_dropoff truck) distance)
        (\<lambda>pickup_time.
      pybind (calculate_waiting_time L pickup_time (Available_From cargo))
        (\<lambda>waiting_hours.
      pybind (float_cell L (price_per_km_Eur truck)) (\<lambda>price_per_km.
      pybind (float_cell L (waiting_time_price_per_h_EUR truck)) (\<lambda>waiting_price_per_hour.
      let total_cost = calculate_total_cost distance waiting_hours
                         price_per_km waiting_price_per_hour
      in
      pybind (lookup_global g ''datetime'') (\<lambda>_.
      pybind (strptime_cell L (Available_To cargo)) (\<lambda>cargo_available_to.
      if pickup_time \<le> cargo_available_to
      then Inr (set_cell (fst st) i j (Finite total_cost),
                (snd st)((i, j) \<mapsto>
                  \<lparr>info_pickup_time = pickup_time,
                   info_waiting_hours = waiting_hours,
                   info_distance = distance,
                   info_distance_cost = distance * price_per_km,
                   info_waiting_cost = waiting_hours * waiting_price_per_hour,
                   info_total_cost = total_cost\<rparr>))
      else Inr st))))))))"

fun cargo_loop ::
  "lib \<Rightarrow> string list \<Rightarrow> TimeCostCalculator \<Rightarrow> nat \<Rightarrow> truck \<Rightarrow> (nat \<times> cargo) list \<Rightarrow>
   matrix \<times> time_info \<Rightarrow> error + matrix \<times> time_info" where
  "cargo_loop L g calculator i truck [] st = Inr st"
| "cargo_loop L g calculator i truck ((j, cargo) # rest) st =
     pybind (pair_step L g calculator i truck j cargo st)
       (cargo_loop L g calculator i truck rest)"

fun truck_loop ::
  "lib \<Rightarrow> string list \<Rightarrow> TimeCostCalculator \<Rightarrow> (nat \<times> truck) list \<Rightarrow> cargo list \<Rightarrow>
   matrix \<times> time_info \<Rightarrow> error + matrix \<times> time_info" where
  "truck_loop L g calculator [] cargo_df st = Inr st"
| "truck_loop L g calculator ((i, truck) # rest) cargo_df st =
     pybind (cargo_loop L g calculator i truck (iterrows cargo_df) st)
       (truck_loop L g calculator rest cargo_df)"

definition calculate_cost_matrix ::
  "lib \<Rightarrow> string list \<Rightarrow> truck list \<Rightarrow> cargo list \<Rightarrow> error + matrix \<times> time_info" where
  "calculate_cost_matrix L g trucks_df cargo_df =
     (let calculator = TimeCostCalculator_init None;
          num_trucks = length trucks_df;
          num_cargo = length cargo_df;
          cost_matrix = np_full num_trucks num_cargo Inf;
          time_info = Map.empty
      in truck_loop L g calculator (iterrows trucks_df) cargo_df (cost_matrix, time_info))"

text \<open>
  The list comprehension of \<^verbatim>\<open>optimize_assignments\<close>; reading \<^verbatim>\<open>cost_matrix[r, c]\<close>
  outside the matrix raises IndexError.
\<close>

fun valid_assignments :: "matrix \<Rightarrow> (nat \<times> nat) list \<Rightarrow> error + (nat \<times> nat) list" where
  "valid_assignments cost_matrix [] = Inr []"
| "valid_assignments cost_matrix ((r, c) # rest) =
     (if r < length cost_matrix \<and> c < length (cost_matrix ! r)
      then pybind (valid_assignments cost_matrix rest) (\<lambda>tl.
             Inr (if cost_matrix ! r ! c \<noteq> Inf then (r, c) # tl else tl))
      else Inl IndexError)"

text \<open>The two steps of \<^verbatim>\<open>optimize_assignments\<close> after the matrix is built.\<close>

definition solve_and_filter :: "lib \<Rightarrow> matrix \<Rightarrow> error + (nat \<times> nat) list" where
  "solve_and_filter L cost_matrix =
     pybind (linear_sum_assignment L cost_matrix) (\<lambda>(row_ind, col_ind).
       valid_assignments cost_matrix (zip row_ind col_ind))"

definition optimize_assignments ::
  "lib \<Rightarrow> string list \<Rightarrow> truck list \<Rightarrow> cargo list \<Rightarrow>
   error + (nat \<times> nat) list \<times> time_info" where
  "optimize_assignments L g trucks_df cargo_df =
     pybind (calculate_cost_matrix L g trucks_df cargo_df) (\<lambda>(cost_matrix, time_info).
     pybind (solve_and_filter L cost_matrix) (\<lambda>valid. Inr (valid, time_info)))"

subsection \<open>What \<^verbatim>\<open>linear_sum_assignment\<close> promises\<close>

text \<open>
  Sums and comparisons of matrix cells, with \<open>Inf\<close> absorbing and greater than every finite
  value, as in IEEE arithmetic.
\<close>

fun np_add :: "npfloat \<Rightarrow> npfloat \<Rightarrow> npfloat" where
  "np_add (Finite a) (Finite b) = Finite (a + b)"
| "np_add _ _ = Inf"

fun np_le :: "npfloat \<Rightarrow> npfloat \<Rightarrow> bool" where
  "np_le (Finite a) (Finite b) = (a \<le> b)"
| "np_le _ Inf = True"
| "np_le Inf (Finite _) = False"

definition ncols :: "matrix \<Rightarrow> nat" where
  "ncols M = (case M of [] \<Rightarrow> 0 | row # _ \<Rightarrow> length row)"

text \<open>\<^verbatim>\<open>cost_matrix[row_ind, col_ind].sum()\<close> for a list of pairs\<close>

definition assignment_cost :: "matrix \<Rightarrow> (nat \<times> nat) list \<Rightarrow> npfloat" where
  "assignment_cost M ps = foldr (\<lambda>(r, c). np_add (M ! r ! c)) ps (Finite 0)"

text \<open>A matching of an \<open>n\<close> by \<open>m\<close> matrix: no row and no column twice, all in range.\<close>

definition is_matching :: "nat \<Rightarrow> nat \<Rightarrow> (nat \<times> nat) list \<Rightarrow> bool" where
  "is_matching n m ps =
     (distinct (map fst ps) \<and> distinct (map snd ps) \<and> list_all (\<lambda>(r, c). r < n \<and> c < m) ps)"

text \<open>
  The documented behaviour of scipy's solver on a matrix \<open>M\<close> with entries that are finite or
  \<^verbatim>\<open>+inf\<close>: it returns a matching of \<open>min (rows, columns)\<close> pairs of least total cost, row
  indices sorted, and raises ValueError (``cost matrix is infeasible'') when every such
  matching has infinite cost. On a matrix with no rows or no columns the matching is empty.
\<close>

definition lsa_contract :: "matrix \<Rightarrow> error + (nat list \<times> nat list) \<Rightarrow> bool" where
  "lsa_contract M res =
     (let n = length M; m = ncols M in
      case res of
        Inl e \<Rightarrow>
          e = ValueError \<and>
          (\<forall>ps. is_matching n m ps \<and> length ps = min n m \<longrightarrow> assignment_cost M ps = Inf)
      | Inr (row_ind, col_ind) \<Rightarrow>
          length row_ind = min n m \<and> length col_ind = min n m \<and> sorted row_ind \<and>
          is_matching n m (zip row_ind col_ind) \<and>
          assignment_cost M (zip row_ind col_ind) \<noteq> Inf \<and>
          (\<forall>ps. is_matching n m ps \<and> length ps = min n m \<longrightarrow>
                np_le (assignment_cost M (zip row_ind col_ind)) (assignment_cost M ps)))"

subsection \<open>Example libraries and frames\<close>

text \<open>
  A solver by exhaustive search, used as the solver of the examples: it lists every
  matching of \<open>min (rows, columns)\<close> pairs and keeps the first of least cost.
\<close>

fun injections :: "nat \<Rightarrow> nat list \<Rightarrow> nat list list" where
  "injections 0 xs = [[]]"
| "injections (Suc k) xs =
     concat (map (\<lambda>x. map ((#) x) (injections k (removeAll x xs))) xs)"

definition candidates :: "matrix \<Rightarrow> (nat \<times> nat) list list" where
  "candidates M =
     (let n = length M; m = ncols M in
      if n \<le> m then map (zip [0..<n]) (injections n [0..<m])
      else map (\<lambda>rs. sort_key fst (zip rs [0..<m])) (injections m [0..<n]))"

fun cheapest :: "matrix \<Rightarrow> (nat \<times> nat) list list \<Rightarrow> (nat \<times> nat) list \<Rightarrow> (nat \<times> nat) list" where
  "cheapest M [] best = best"
| "cheapest M (c # cs) best =
     cheapest M cs (if np_le (assignment_cost M best) (assignment_cost M c) then best else c)"

definition exhaustive_lsa :: "matrix \<Rightarrow> error + (nat list \<times> nat list)" where
  "exhaustive_lsa M =
     (case candidates M of
        [] \<Rightarrow> Inl ValueError
      | c # cs \<Rightarrow>
          (let best = cheapest M cs c
           in if assignment_cost M best = Inf then Inl ValueError
              else Inr (map fst best, map snd best)))"

text \<open>
  The example library: a distance of 73 km per degree of latitude or longitude (one hour
  of travel at the default speed), a parser that knows two timestamps of 2024-01-01
  (day number 738886), a conversion of hours to microseconds that rounds the exact product
  to the nearest microsecond, ties to even (it agrees with Python's on the durations of the
  examples, one hour and 1/73 hour), a conversion of text that knows one number, and the
  exhaustive solver.
\<close>

definition timedelta_min :: timedelta where
  "timedelta_min = - (999999999 * 86400000000)"

definition timedelta_max :: timedelta where
  "timedelta_max = 999999999 * 86400000000 + 86399999999"

text \<open>Rounding to the nearest integer, ties to even.\<close>

definition round_half_even :: "real \<Rightarrow> int" where
  "round_half_even x =
     (let f = \<lfloor>x\<rfloor>; r = x - of_int f
      in if r < 1 / 2 then f else if 1 / 2 < r then f + 1
         else if even f then f else f + 1)"

definition example_timedelta_hours :: "real \<Rightarrow> error + timedelta" where
  "example_timedelta_hours h =
     (let us = round_half_even (h * 3600000000)
      in if us < timedelta_min \<or> timedelta_max < us then Inl OverflowError else Inr us)"

definition example_float_of_str :: "string \<Rightarrow> real option" where
  "example_float_of_str s = (if s = ''2.5'' then Some (5 / 2) else None)"

definition example_strptime :: "string \<Rightarrow> datetime option" where
  "example_strptime s =
     (if s = ''2024-01-01 00:00:00'' then Some 63839664000000000
      else if s = ''2024-01-01 05:00:00'' then Some 63839682000000000
      else None)"

definition example_lib :: lib where
  "example_lib =
     \<lparr>geodesic = (\<lambda>a b. Inr (73 * (\<bar>fst a - fst b\<bar> + \<bar>snd a - snd b\<bar>))),
      strptime = example_strptime,
      timedelta_hours = example_timedelta_hours,
      float_of_str = example_float_of_str,
      linear_sum_assignment = exhaustive_lsa\<rparr>"

definition example_truck :: truck where
  "example_truck =
     \<lparr>Latitude_dropoff = 0, Longitude_dropoff = 0,
      Timestamp_dropoff = TStr ''2024-01-01 05:00:00'',
      price_per_km_Eur = PNum 2, waiting_time_price_per_h_EUR = PNum 10\<rparr>"

definition example_cargo :: cargo where
  "example_cargo =
     \<lparr>Delivery_Latitude = 1, Delivery_Longitude = 0,
      Available_From = TStr ''2024-01-01 00:00:00'',
      Available_To = TStr ''2024-01-01 05:00:00''\<rparr>"

text \<open>The namespace of \<^verbatim>\<open>optimizer.py\<close> after a caller has bound \<^verbatim>\<open>datetime\<close> in it.\<close>

definition patched_globals :: "string list" where
  "patched_globals = ''datetime'' # optimizer_globals"

subsection \<open>Notions used in the statements\<close>

text \<open>
  A timestamp cell is malformed or missing when it is text that \<^verbatim>\<open>strptime\<close> rejects, or
  the NaN of a missing value.
\<close>

definition bad_timestamp :: "lib \<Rightarrow> cellval \<Rightarrow> bool" where
  "bad_timestamp L v =
     (case v of TStr s \<Rightarrow> strptime L s = None | TDatetime _ \<Rightarrow> False | TMissing \<Rightarrow> True)"

text \<open>
  The projected pickup time of a pair, as the first two steps of the loop body compute it,
  and the feasibility gate of its last step.
\<close>

definition projected_pickup_time :: "lib \<Rightarrow> truck \<Rightarrow> cargo \<Rightarrow> error + datetime" where
  "projected_pickup_time L truck cargo =
     pybind (geodesic L (Latitude_dropoff truck, Longitude_dropoff truck)
               (Delivery_Latitude cargo, Delivery_Longitude cargo))
       (calculate_pickup_time L (TimeCostCalculator_init None) (Timestamp_dropoff truck))"

definition feasible :: "lib \<Rightarrow> truck \<Rightarrow> cargo \<Rightarrow> bool" where
  "feasible L truck cargo =
     (case projected_pickup_time L truck cargo of
        Inl _ \<Rightarrow> False
      | Inr pickup_time \<Rightarrow>
          (case strptime_cell L (Available_To cargo) of
             Inl _ \<Rightarrow> False
           | Inr cargo_available_to \<Rightarrow> pickup_time \<le> cargo_available_to))"

text \<open>
  What holds of the matrix and the dictionary while the build runs: the matrix keeps its
  shape, and a cell that is not the sentinel belongs to a pair that passed the gate, whose
  entry in the dictionary carries the cell's value and the pair's projected pickup time.
\<close>

definition build_inv :: "lib \<Rightarrow> truck list \<Rightarrow> cargo list \<Rightarrow> matrix \<times> time_info \<Rightarrow> bool" where
  "build_inv L trucks_df cargo_df st =
     (length (fst st) = length trucks_df \<and>
      list_all (\<lambda>row. length row = length cargo_df) (fst st) \<and>
      (\<forall>i j. i < length trucks_df \<and> j < length cargo_df \<and> fst st ! i ! j \<noteq> Inf \<longrightarrow>
         feasible L (trucks_df ! i) (cargo_df ! j) \<and>
         (\<exists>e. snd st (i, j) = Some e \<and>
              fst st ! i ! j = Finite (info_total_cost e) \<and>
              projected_pickup_time L (trucks_df ! i) (cargo_df ! j)
                = Inr (info_pickup_time e))))"

section \<open>Properties\<close>

subsection \<open>Auxiliary facts\<close>

lemma pybind_simps: "pybind (Inl e) f = Inl e" "pybind (Inr x) f = f x"
  by (simp_all add: pybind_def)

lemma pybind_Inr_iff: "pybind m f = Inr y \<longleftrightarrow> (\<exists>x. m = Inr x \<and> f x = Inr y)"
  by (cases m) (simp_all add: pybind_def)

lemma pybind_Inl_iff: "pybind m f = Inl e \<longleftrightarrow> m = Inl e \<or> (\<exists>x. m = Inr x \<and> f x = Inl e)"
  by (cases m) (simp_all add: pybind_def)

subsection \<open>The temporal cost model\<close>

text \<open>
  Claim C10. \<^verbatim>\<open>calculate_travel_time\<close> divides by the configured speed without a guard:
  the constructor stores any speed it is given, zero included; the division raises
  ZeroDivisionError exactly when the speed is zero, and returns the quotient otherwise;
  with speed zero \<^verbatim>\<open>calculate_pickup_time\<close>, which calls it first, raises
  ZeroDivisionError on every input.
\<close>

theorem travel_time_zero_speed:
  "standard_speed_kmh (TimeCostCalculator_init (Some v)) = v \<and>
   (calculate_travel_time self d = Inl ZeroDivisionError \<longleftrightarrow> standard_speed_kmh self = 0) \<and>
   (standard_speed_kmh self \<noteq> 0 \<longrightarrow>
      calculate_travel_time self d = Inr (d / standard_speed_kmh self)) \<and>
   (standard_speed_kmh self = 0 \<longrightarrow>
      calculate_pickup_time L self dropoff_time d = Inl ZeroDivisionError)"
  by (simp add: TimeCostCalculator_init_def calculate_travel_time_def
        calculate_pickup_time_def pybind_simps)

theorem travel_time_zero_speed_witness:
  "standard_speed_kmh (TimeCostCalculator_init (Some 0)) = 0 \<and>
   calculate_travel_time (TimeCostCalculator_init (Some 0)) 100 = Inl ZeroDivisionError \<and>
   calculate_pickup_time example_lib (TimeCostCalculator_init (Some 0))
     (TStr ''2024-01-01 05:00:00'') 100 = Inl ZeroDivisionError \<and>
   calculate_travel_time (TimeCostCalculator_init None) 146 = Inr 2"
  using travel_time_zero_speed [of 0 "TimeCostCalculator_init (Some 0)" 100 example_lib
          "TStr ''2024-01-01 05:00:00''"]
        travel_time_zero_speed [of 0 "TimeCostCalculator_init None" 146 example_lib TMissing]
  by (simp add: TimeCostCalculator_init_def)

text \<open>
  Claim C7. The default speed is 73. For a release timestamp \<open>t\<close>, given as a datetime or
  as text that parses to \<open>t\<close>, and a calculator with a non-zero speed,
  \<^verbatim>\<open>calculate_pickup_time\<close> returns \<open>t\<close> minus the timedelta of \<open>distance / speed\<close> hours,
  provided the library builds that timedelta and the difference is a representable
  datetime. The function is a function of its arguments alone: it reads and writes no state.
\<close>

theorem pickup_time_value:
  assumes ts: "dropoff_time = TDatetime t \<or> (\<exists>s. dropoff_time = TStr s \<and> strptime L s = Some t)"
    and speed: "standard_speed_kmh self \<noteq> 0"
    and td: "timedelta_hours L (distance_km / standard_speed_kmh self) = Inr td"
    and range: "0 \<le> t - td" "t - td \<le> datetime_max"
  shows "standard_speed_kmh (TimeCostCalculator_init None) = 73 \<and>
         calculate_pickup_time L self dropoff_time distance_km = Inr (t - td)"
proof -
  have sub: "datetime_sub t td = Inr (t - td)"
    using range by (simp add: datetime_sub_def Let_def)
  have "calculate_pickup_time L self dropoff_time distance_km = Inr (t - td)"
    using ts speed td sub
    by (auto simp: calculate_pickup_time_def calculate_travel_time_def pybind_simps)
  then show ?thesis by (simp add: TimeCostCalculator_init_def)
qed

theorem pickup_time_value_witness:
  "calculate_pickup_time example_lib (TimeCostCalculator_init None)
     (TStr ''2024-01-01 05:00:00'') 1 = Inr 63839681950684932"
  using pickup_time_value [of "TStr ''2024-01-01 05:00:00''" 63839682000000000 example_lib
          "TimeCostCalculator_init None" 1 49315068]
  by (simp add: TimeCostCalculator_init_def example_lib_def example_strptime_def
        example_timedelta_hours_def timedelta_min_def timedelta_max_def
        datetime_max_def round_half_even_def Let_def)

subsection \<open>The loops of the build\<close>

lemma isl_pybind: "isl (pybind m f) \<longleftrightarrow> isl m \<or> (\<exists>x. m = Inr x \<and> isl (f x))"
  by (cases m) (simp_all add: pybind_def)

lemma isl_pybindI: "(\<And>x. m = Inr x \<Longrightarrow> isl (f x)) \<Longrightarrow> isl (pybind m f)"
  by (cases m) (simp_all add: pybind_def)

lemma isl_pybind_left: "isl m \<Longrightarrow> isl (pybind m f)"
  by (cases m) (simp_all add: pybind_def)

lemma pickup_time_bad: "bad_timestamp L v \<Longrightarrow> isl (calculate_pickup_time L self v d)"
  unfolding calculate_pickup_time_def
proof (rule isl_pybindI)
  fix travel_time
  assume bad: "bad_timestamp L v"
  show "isl (pybind (case v of
               TStr s \<Rightarrow> (case strptime L s of None \<Rightarrow> Inl ValueError
                          | Some t \<Rightarrow> Inr (TDatetime t))
             | v \<Rightarrow> Inr v) (\<lambda>dropoff_time.
     pybind (timedelta_hours L travel_time) (\<lambda>td.
     case dropoff_time of
       TDatetime t \<Rightarrow> datetime_sub t td
     | _ \<Rightarrow> Inl TypeError)))"
  proof (cases v)
    case (TStr s)
    with bad show ?thesis by (simp add: bad_timestamp_def pybind_simps)
  next
    case (TDatetime t)
    with bad show ?thesis by (simp add: bad_timestamp_def)
  next
    case TMissing
    then show ?thesis by (simp add: pybind_simps) (rule isl_pybindI, simp)
  qed
qed

lemma waiting_time_bad: "bad_timestamp L v \<Longrightarrow> isl (calculate_waiting_time L p v)"
  by (cases v) (simp_all add: bad_timestamp_def calculate_waiting_time_def pybind_simps)

lemma strptime_cell_bad: "bad_timestamp L v \<Longrightarrow> isl (strptime_cell L v)"
  by (cases v) (simp_all add: bad_timestamp_def strptime_cell_def)


lemma pair_step_bad_truck:
  "bad_timestamp L (Timestamp_dropoff truck) \<Longrightarrow> isl (pair_step L g calculator i truck j cargo st)"
  unfolding pair_step_def Let_def
  by (rule isl_pybindI, rule isl_pybind_left, rule pickup_time_bad)

lemma pair_step_unbound:
  "''datetime'' \<notin> set g \<Longrightarrow> isl (pair_step L g calculator i truck j cargo st)"
  unfolding pair_step_def Let_def
  by (rule isl_pybindI, rule isl_pybindI, rule isl_pybindI, rule isl_pybindI, rule isl_pybindI,
      rule isl_pybind_left)
     (simp add: lookup_global_def)



lemma pybind_InrE:
  assumes "pybind m f = Inr y"
  obtains x where "m = Inr x" "f x = Inr y"
  using assms by (cases m) (simp_all add: pybind_def)

lemma pair_step_Inr:
  assumes "pair_step L g calculator i truck j cargo st = Inr st'"
  shows "\<exists>distance pickup_time waiting_hours price_per_km waiting_price_per_hour
            cargo_available_to.
           geodesic L (Latitude_dropoff truck, Longitude_dropoff truck)
             (Delivery_Latitude cargo, Delivery_Longitude cargo) = Inr distance \<and>
           calculate_pickup_time L calculator (Timestamp_dropoff truck) distance = Inr pickup_time \<and>
           calculate_waiting_time L pickup_time (Available_From cargo) = Inr waiting_hours \<and>
           float_cell L (price_per_km_Eur truck) = Inr price_per_km \<and>
           float_cell L (waiting_time_price_per_h_EUR truck) = Inr waiting_price_per_hour \<and>
           ''datetime'' \<in> set g \<and>
           strptime_cell L (Available_To cargo) = Inr cargo_available_to \<and>
           st' = (if pickup_time \<le> cargo_available_to
                  then (set_cell (fst st) i j
                          (Finite (calculate_total_cost distance waiting_hours
                             price_per_km waiting_price_per_hour)),
                        (snd st)((i, j) \<mapsto>
                          \<lparr>info_pickup_time = pickup_time,
                           info_waiting_hours = waiting_hours,
                           info_distance = distance,
                           info_distance_cost = distance * price_per_km,
                           info_waiting_cost = waiting_hours * waiting_price_per_hour,
                           info_total_cost = calculate_total_cost distance waiting_hours
                             price_per_km waiting_price_per_hour\<rparr>))
                  else st)"
  using assms unfolding pair_step_def Let_def
  by (elim pybind_InrE) (auto simp: lookup_global_def split: if_splits)

lemma not_isl_Inr: "\<not> isl m \<Longrightarrow> \<exists>x. m = Inr x"
  by (cases m) simp_all

lemma pair_step_Inr_cargo:
  assumes "pair_step L g calculator i truck j cargo st = Inr st'"
  shows "(\<exists>pickup_time waiting_hours.
            calculate_waiting_time L pickup_time (Available_From cargo) = Inr waiting_hours) \<and>
         (\<exists>t. strptime_cell L (Available_To cargo) = Inr t)"
  using assms unfolding pair_step_def Let_def
  by (elim pybind_InrE) (auto simp: lookup_global_def split: if_splits)

lemma pair_step_bad_cargo:
  assumes "bad_timestamp L (Available_From cargo) \<or> bad_timestamp L (Available_To cargo)"
  shows "isl (pair_step L g calculator i truck j cargo st)"
proof (rule ccontr)
  assume "\<not> isl (pair_step L g calculator i truck j cargo st)"
  then obtain st' where "pair_step L g calculator i truck j cargo st = Inr st'"
    using not_isl_Inr by blast
  from pair_step_Inr_cargo [OF this] obtain pickup_time waiting_hours t where
    "calculate_waiting_time L pickup_time (Available_From cargo) = Inr waiting_hours"
    "strptime_cell L (Available_To cargo) = Inr t" by blast
  with assms show False
    using waiting_time_bad [of L "Available_From cargo" pickup_time]
      strptime_cell_bad [of L "Available_To cargo"] by auto
qed

lemma cargo_loop_isl:
  "(j, cargo) \<in> set rows \<Longrightarrow> (\<And>st. isl (pair_step L g calculator i truck j cargo st)) \<Longrightarrow>
   isl (cargo_loop L g calculator i truck rows st)"
proof (induction rows arbitrary: st)
  case Nil
  then show ?case by simp
next
  case (Cons row rows)
  show ?case
  proof (cases row)
    case (Pair j' cargo')
    show ?thesis
    proof (cases "(j', cargo') = (j, cargo)")
      case True
      with Pair Cons.prems(2) show ?thesis by (simp add: isl_pybind_left)
    next
      case False
      with Pair Cons.prems(1) have "(j, cargo) \<in> set rows" by auto
      then have "\<And>st'. isl (cargo_loop L g calculator i truck rows st')"
        using Cons.IH Cons.prems(2) by blast
      with Pair show ?thesis by simp (rule isl_pybindI, simp)
    qed
  qed
qed

lemma truck_loop_isl:
  "(i, truck) \<in> set rows \<Longrightarrow>
   (\<And>st. isl (cargo_loop L g calculator i truck (iterrows cargo_df) st)) \<Longrightarrow>
   isl (truck_loop L g calculator rows cargo_df st)"
proof (induction rows arbitrary: st)
  case Nil
  then show ?case by simp
next
  case (Cons row rows)
  show ?case
  proof (cases row)
    case (Pair i' truck')
    show ?thesis
    proof (cases "(i', truck') = (i, truck)")
      case True
      with Pair Cons.prems(2) show ?thesis by (simp add: isl_pybind_left)
    next
      case False
      with Pair Cons.prems(1) have "(i, truck) \<in> set rows" by auto
      then have "\<And>st'. isl (truck_loop L g calculator rows cargo_df st')"
        using Cons.IH Cons.prems(2) by blast
      with Pair show ?thesis by simp (rule isl_pybindI, simp)
    qed
  qed
qed

lemma in_iterrows_iff: "(i, x) \<in> set (iterrows df) \<longleftrightarrow> i < length df \<and> df ! i = x"
  by (simp add: iterrows_def in_set_enumerate_eq)

lemma in_iterrows: "x \<in> set df \<Longrightarrow> \<exists>i. (i, x) \<in> set (iterrows df)"
proof -
  assume "x \<in> set df"
  then obtain i where "i < length df" "df ! i = x"
    by (auto simp: in_set_conv_nth)
  then have "(i, x) \<in> set (iterrows df)"
    by (simp add: in_iterrows_iff)
  then show ?thesis ..
qed

lemma iterrows_nonempty: "df \<noteq> [] \<Longrightarrow> \<exists>i x. (i, x) \<in> set (iterrows df)"
proof -
  assume "df \<noteq> []"
  then have "(0, df ! 0) \<in> set (iterrows df)"
    by (simp add: in_iterrows_iff)
  then show ?thesis by blast
qed

lemma build_isl:
  assumes i: "(i, truck) \<in> set (iterrows trucks_df)"
    and j: "(j, cargo) \<in> set (iterrows cargo_df)"
    and step: "\<And>calculator st. isl (pair_step L g calculator i truck j cargo st)"
  shows "isl (calculate_cost_matrix L g trucks_df cargo_df)"
proof -
  have "isl (cargo_loop L g calculator i truck (iterrows cargo_df) st)" for calculator st
    using j step by (rule cargo_loop_isl)
  then have "isl (truck_loop L g calculator (iterrows trucks_df) cargo_df st)" for calculator st
    using i by (rule truck_loop_isl [rotated])
  then show ?thesis
    by (simp add: calculate_cost_matrix_def Let_def)
qed

lemma build_isl_unbound:
  assumes "''datetime'' \<notin> set g" "trucks_df \<noteq> []" "cargo_df \<noteq> []"
  shows "isl (calculate_cost_matrix L g trucks_df cargo_df)"
proof -
  obtain j cargo where j: "(j, cargo) \<in> set (iterrows cargo_df)"
    using assms(3) iterrows_nonempty by blast
  obtain i truck where i: "(i, truck) \<in> set (iterrows trucks_df)"
    using assms(2) iterrows_nonempty by blast
  show ?thesis
    using i j pair_step_unbound [OF assms(1)] by (rule build_isl)
qed


lemma datetime_unbound: "''datetime'' \<notin> set optimizer_globals"
  by (simp add: optimizer_globals_def)

subsection \<open>Evaluating the examples\<close>

lemmas example_defs = example_lib_def example_truck_def example_cargo_def example_strptime_def
  calculate_cost_matrix_def iterrows_def np_full_def TimeCostCalculator_init_def
  pair_step_def calculate_pickup_time_def calculate_travel_time_def calculate_waiting_time_def
  calculate_total_cost_def pybind_def lookup_global_def optimizer_globals_def patched_globals_def
  strptime_cell_def example_timedelta_hours_def float_cell_def round_half_even_def timedelta_min_def timedelta_max_def
  datetime_sub_def datetime_max_def set_cell_def enumerate_eq_zip bad_timestamp_def

subsection \<open>The cost matrix build\<close>

text \<open>
  Claim C3, at a concrete input. The example truck reaches the example cargo at 04:00, before
  the end of its window at 05:00, so the pair passes the feasibility gate. In the namespace
  of \<^verbatim>\<open>optimizer.py\<close> as the module binds it, the build of this one-by-one input
  raises NameError at the line that parses \<^verbatim>\<open>Available_To\<close>, before the gate is
  evaluated: no matrix and no cost entry are produced.
\<close>

theorem build_raises_NameError:
  "feasible example_lib example_truck example_cargo \<and>
   calculate_cost_matrix example_lib optimizer_globals [example_truck] [example_cargo]
     = Inl NameError"
  by (simp add: example_defs feasible_def projected_pickup_time_def)

text \<open>
  The same holds for every input with at least one truck and one cargo: the loop body
  cannot complete while \<^verbatim>\<open>datetime\<close> is unbound.
\<close>

lemma build_raises_as_written:
  assumes "trucks_df \<noteq> []" "cargo_df \<noteq> []"
  shows "isl (calculate_cost_matrix L optimizer_globals trucks_df cargo_df)"
  using datetime_unbound assms by (rule build_isl_unbound)

text \<open>
  Claim C1, as the code has it. The build has no handler around the loop body, so an
  exception raised for one pair ends the whole call: when some truck has a malformed or
  missing release timestamp and there is at least one cargo, or some cargo has a malformed or
  missing window bound and there is at least one truck, the build returns an error and no
  matrix, whatever the namespace and the libraries.
\<close>

theorem build_aborts_on_bad_timestamp:
  assumes "(\<exists>truck\<in>set trucks_df. bad_timestamp L (Timestamp_dropoff truck)) \<and> cargo_df \<noteq> [] \<or>
           (\<exists>cargo\<in>set cargo_df. bad_timestamp L (Available_From cargo) \<or>
                                  bad_timestamp L (Available_To cargo)) \<and> trucks_df \<noteq> []"
  shows "\<exists>e. calculate_cost_matrix L g trucks_df cargo_df = Inl e"
proof -
  have "isl (calculate_cost_matrix L g trucks_df cargo_df)"
    using assms
  proof
    assume a: "(\<exists>truck\<in>set trucks_df. bad_timestamp L (Timestamp_dropoff truck)) \<and> cargo_df \<noteq> []"
    from a have "\<exists>truck\<in>set trucks_df. bad_timestamp L (Timestamp_dropoff truck)"
      by (rule conjunct1)
    then obtain truck where t: "truck \<in> set trucks_df" "bad_timestamp L (Timestamp_dropoff truck)"
      by (rule bexE)
    from a have c: "cargo_df \<noteq> []" by (rule conjunct2)
    from in_iterrows [OF t(1)] obtain i where i: "(i, truck) \<in> set (iterrows trucks_df)"
      by (rule exE)
    from iterrows_nonempty [OF c] obtain j cargo where j: "(j, cargo) \<in> set (iterrows cargo_df)"
      by (elim exE)
    have "isl (pair_step L g calculator i truck j cargo st)" for calculator st
      using t(2) by (rule pair_step_bad_truck)
    with i j show ?thesis by (rule build_isl)
  next
    assume a: "(\<exists>cargo\<in>set cargo_df. bad_timestamp L (Available_From cargo) \<or>
                                  bad_timestamp L (Available_To cargo)) \<and> trucks_df \<noteq> []"
    from a have "\<exists>cargo\<in>set cargo_df. bad_timestamp L (Available_From cargo) \<or>
                                  bad_timestamp L (Available_To cargo)"
      by (rule conjunct1)
    then obtain cargo where c: "cargo \<in> set cargo_df"
        "bad_timestamp L (Available_From cargo) \<or> bad_timestamp L (Available_To cargo)"
      by (rule bexE)
    from a have t: "trucks_df \<noteq> []" by (rule conjunct2)
    from in_iterrows [OF c(1)] obtain j where j: "(j, cargo) \<in> set (iterrows cargo_df)"
      by (rule exE)
    from iterrows_nonempty [OF t] obtain i truck where i: "(i, truck) \<in> set (iterrows trucks_df)"
      by (elim exE)
    have "isl (pair_step L g calculator i truck j cargo st)" for calculator st
      using c(2) by (rule pair_step_bad_cargo)
    with i j show ?thesis by (rule build_isl)
  qed
  then show ?thesis by (cases "calculate_cost_matrix L g trucks_df cargo_df") simp_all
qed

theorem build_aborts_on_bad_timestamp_witness:
  "calculate_cost_matrix example_lib patched_globals
     [example_truck, example_truck\<lparr>Timestamp_dropoff := TStr ''01/01/2024''\<rparr>] [example_cargo]
   = Inl ValueError"
  using build_aborts_on_bad_timestamp [of
      "[example_truck, example_truck\<lparr>Timestamp_dropoff := TStr ''01/01/2024''\<rparr>]"
      example_lib "[example_cargo]" patched_globals]
  by (simp add: example_defs)

text \<open>
  Claim C1 as stated fails: with a malformed timestamp on the first of two trucks the build
  raises ValueError, and with a missing one TypeError, although the second truck is well
  formed; no matrix with a single infeasible cell is returned.
\<close>

theorem bad_timestamp_aborts_build_counterexample:
  "calculate_cost_matrix example_lib optimizer_globals
     [example_truck\<lparr>Timestamp_dropoff := TStr ''01/01/2024''\<rparr>, example_truck] [example_cargo]
   = Inl ValueError \<and>
   calculate_cost_matrix example_lib patched_globals
     [example_truck\<lparr>Timestamp_dropoff := TMissing\<rparr>, example_truck] [example_cargo]
   = Inl TypeError"
  by (simp add: example_defs)

subsection \<open>Empty input\<close>

lemma truck_loop_no_cargo: "truck_loop L g calculator rows [] st = Inr st"
proof (induction rows)
  case Nil
  show ?case by simp
next
  case (Cons row rows)
  then show ?case by (cases row) (simp add: iterrows_def pybind_simps)
qed

lemma build_empty:
  assumes "trucks_df = [] \<or> cargo_df = []"
  shows "calculate_cost_matrix L g trucks_df cargo_df
           = Inr (replicate (length trucks_df) [], Map.empty)"
  using assms
proof
  assume "trucks_df = []"
  then show ?thesis by (simp add: calculate_cost_matrix_def np_full_def iterrows_def)
next
  assume "cargo_df = []"
  then show ?thesis by (simp add: calculate_cost_matrix_def np_full_def truck_loop_no_cargo)
qed

lemma ncols_no_cells: "ncols (replicate n []) = 0"
  by (cases n) (simp_all add: ncols_def)

lemma assignment_cost_Nil: "assignment_cost M [] = Finite 0"
  by (simp add: assignment_cost_def)

lemma is_matching_Nil: "is_matching n m []"
  by (simp add: is_matching_def)

lemma lsa_contract_no_cells:
  assumes "lsa_contract (replicate n []) r"
  shows "r = Inr ([], [])"
proof (cases r)
  case (Inl e)
  with assms have "assignment_cost (replicate n []) [] = Inf"
    by (simp add: lsa_contract_def ncols_no_cells is_matching_Nil)
  then show ?thesis by (simp add: assignment_cost_Nil)
next
  case (Inr p)
  with assms show ?thesis
    by (cases p) (simp add: lsa_contract_def ncols_no_cells)
qed

text \<open>
  Claim C8. With no truck or no cargo the build returns a matrix without cells and an empty
  dictionary, in every namespace; on such a matrix a solver that keeps its contract returns
  the empty matching, and \<^verbatim>\<open>optimize_assignments\<close> returns the empty assignment.
\<close>

theorem empty_input:
  assumes "trucks_df = [] \<or> cargo_df = []"
  shows "calculate_cost_matrix L g trucks_df cargo_df
           = Inr (replicate (length trucks_df) [], Map.empty) \<and>
         (lsa_contract (replicate (length trucks_df) [])
            (linear_sum_assignment L (replicate (length trucks_df) [])) \<longrightarrow>
          optimize_assignments L g trucks_df cargo_df = Inr ([], Map.empty))"
proof (intro conjI impI)
  show b: "calculate_cost_matrix L g trucks_df cargo_df
           = Inr (replicate (length trucks_df) [], Map.empty)"
    using assms by (rule build_empty)
  assume "lsa_contract (replicate (length trucks_df) [])
            (linear_sum_assignment L (replicate (length trucks_df) []))"
  then have "linear_sum_assignment L (replicate (length trucks_df) []) = Inr ([], [])"
    by (rule lsa_contract_no_cells)
  with b show "optimize_assignments L g trucks_df cargo_df = Inr ([], Map.empty)"
    by (simp add: optimize_assignments_def solve_and_filter_def pybind_simps)
qed

lemma exhaustive_lsa_no_cells: "exhaustive_lsa [[]] = Inr ([], [])"
  by (simp add: exhaustive_lsa_def candidates_def ncols_def assignment_cost_def)

lemma lsa_contract_example_no_cells: "lsa_contract [[]] (Inr ([], []))"
  by (simp add: lsa_contract_def ncols_def is_matching_def assignment_cost_def)

theorem empty_input_witness:
  "calculate_cost_matrix example_lib optimizer_globals [example_truck] []
     = Inr ([[]], Map.empty) \<and>
   optimize_assignments example_lib optimizer_globals [example_truck] [] = Inr ([], Map.empty)"
  using empty_input [of "[example_truck]" "[]" example_lib optimizer_globals]
    lsa_contract_example_no_cells
  by (simp add: example_lib_def exhaustive_lsa_no_cells)

subsection \<open>Two evaluations used below\<close>

lemma example_build:
  "\<exists>info. calculate_cost_matrix example_lib patched_globals [example_truck] [example_cargo]
            = Inr ([[Finite 146]], info)"
  by (simp add: example_defs)

lemma exhaustive_lsa_1x1: "exhaustive_lsa [[Finite c]] = Inr ([0], [0])"
  by (simp add: exhaustive_lsa_def candidates_def ncols_def assignment_cost_def)

subsection \<open>Prices and distances are not validated\<close>




subsection \<open>The invariant of the build\<close>

lemma nth_set_cell:
  assumes "i < length M" "j < length (M ! i)"
  shows "set_cell M i j v ! i' ! j' = (if i' = i \<and> j' = j then v else M ! i' ! j')"
proof (cases "i' = i")
  case True
  with assms show ?thesis by (simp add: set_cell_def nth_list_update)
next
  case False
  then show ?thesis by (simp add: set_cell_def)
qed

lemma length_set_cell: "length (set_cell M i j v) = length M"
  by (simp add: set_cell_def)

lemma rows_set_cell:
  assumes "list_all (\<lambda>row. length row = m) M"
  shows "list_all (\<lambda>row. length row = m) (set_cell M i j v)"
proof (cases "i < length M")
  case False
  then have "M[i := (M ! i)[j := v]] = M" by (simp add: list_update_beyond)
  with assms show ?thesis by (simp add: set_cell_def)
next
  case True
  with assms have "length (M ! i) = m" by (simp add: list_all_length)
  then have "length ((M ! i)[j := v]) = m" by simp
  moreover have "set (M[i := (M ! i)[j := v]]) \<subseteq> insert ((M ! i)[j := v]) (set M)"
    by (rule set_update_subset_insert)
  moreover have "\<forall>row\<in>set M. length row = m"
    using assms by (simp add: list_all_iff)
  ultimately have "\<forall>row\<in>set (M[i := (M ! i)[j := v]]). length row = m"
    by auto
  then show ?thesis by (simp add: set_cell_def list_all_iff)
qed

lemma pair_step_inv:
  assumes inv: "build_inv L trucks_df cargo_df st"
    and i: "i < length trucks_df" and j: "j < length cargo_df"
    and step: "pair_step L g (TimeCostCalculator_init None) i (trucks_df ! i) j (cargo_df ! j) st
                 = Inr st'"
  shows "build_inv L trucks_df cargo_df st'"
proof -
  let ?truck = "trucks_df ! i" and ?cargo = "cargo_df ! j"
  from pair_step_Inr [OF step] obtain distance pickup_time waiting_hours price_per_km
      waiting_price_per_hour cargo_available_to
    where d: "geodesic L (Latitude_dropoff ?truck, Longitude_dropoff ?truck)
                (Delivery_Latitude ?cargo, Delivery_Longitude ?cargo) = Inr distance"
      and p: "calculate_pickup_time L (TimeCostCalculator_init None)
                (Timestamp_dropoff ?truck) distance = Inr pickup_time"
      and t: "strptime_cell L (Available_To ?cargo) = Inr cargo_available_to"
      and st': "st' = (if pickup_time \<le> cargo_available_to
                  then (set_cell (fst st) i j
                          (Finite (calculate_total_cost distance waiting_hours
                             price_per_km waiting_price_per_hour)),
                        (snd st)((i, j) \<mapsto>
                          \<lparr>info_pickup_time = pickup_time,
                           info_waiting_hours = waiting_hours,
                           info_distance = distance,
                           info_distance_cost = distance * price_per_km,
                           info_waiting_cost = waiting_hours * waiting_price_per_hour,
                           info_total_cost = calculate_total_cost distance waiting_hours
                             price_per_km waiting_price_per_hour\<rparr>))
                  else st)"
    by (elim exE conjE)
  show ?thesis
  proof (cases "pickup_time \<le> cargo_available_to")
    case False
    with st' inv show ?thesis by simp
  next
    case True
    let ?tc = "calculate_total_cost distance waiting_hours
                 price_per_km waiting_price_per_hour"
    let ?e = "\<lparr>info_pickup_time = pickup_time,
                           info_waiting_hours = waiting_hours,
                           info_distance = distance,
                           info_distance_cost = distance * price_per_km,
                           info_waiting_cost = waiting_hours * waiting_price_per_hour,
                           info_total_cost = ?tc\<rparr>"
    from True st' have fst': "fst st' = set_cell (fst st) i j (Finite ?tc)"
      and snd': "snd st' = (snd st)((i, j) \<mapsto> ?e)" by simp_all
    from inv have len: "length (fst st) = length trucks_df"
      and rows: "list_all (\<lambda>row. length row = length cargo_df) (fst st)"
      by (simp_all add: build_inv_def)
    from len i have iM: "i < length (fst st)" by simp
    with rows j have jM: "j < length (fst st ! i)" by (simp add: list_all_length)
    have pp: "projected_pickup_time L ?truck ?cargo = Inr pickup_time"
      by (simp add: projected_pickup_time_def d p pybind_simps)
    with t True have feas: "feasible L ?truck ?cargo"
      by (simp add: feasible_def)
    have cells: "feasible L (trucks_df ! i') (cargo_df ! j') \<and>
         (\<exists>e. snd st' (i', j') = Some e \<and>
              fst st' ! i' ! j' = Finite (info_total_cost e) \<and>
              projected_pickup_time L (trucks_df ! i') (cargo_df ! j') = Inr (info_pickup_time e))"
      if b: "i' < length trucks_df" "j' < length cargo_df" and c: "fst st' ! i' ! j' \<noteq> Inf"
      for i' j'
    proof (cases "i' = i \<and> j' = j")
      case True
      then show ?thesis
        using feas pp by (simp add: fst' snd' nth_set_cell [OF iM jM])
    next
      case False
      with c have "fst st ! i' ! j' \<noteq> Inf"
        by (simp add: fst' nth_set_cell [OF iM jM])
      with inv b have "feasible L (trucks_df ! i') (cargo_df ! j') \<and>
         (\<exists>e. snd st (i', j') = Some e \<and>
              fst st ! i' ! j' = Finite (info_total_cost e) \<and>
              projected_pickup_time L (trucks_df ! i') (cargo_df ! j') = Inr (info_pickup_time e))"
        by (simp add: build_inv_def)
      with False show ?thesis
        by (auto simp: fst' snd' nth_set_cell [OF iM jM])
    qed
    show ?thesis
      unfolding build_inv_def
      using len rows cells by (simp add: fst' length_set_cell rows_set_cell)
  qed
qed

lemma cargo_loop_inv:
  assumes i: "i < length trucks_df"
    and rows: "\<And>j cargo. (j, cargo) \<in> set rows \<Longrightarrow> j < length cargo_df \<and> cargo_df ! j = cargo"
    and inv: "build_inv L trucks_df cargo_df st"
    and loop: "cargo_loop L g (TimeCostCalculator_init None) i (trucks_df ! i) rows st = Inr st'"
  shows "build_inv L trucks_df cargo_df st'"
  using rows inv loop
proof (induction rows arbitrary: st)
  case Nil
  then show ?case by simp
next
  case (Cons row rows)
  obtain j cargo where row: "row = (j, cargo)" by (cases row)
  from Cons.prems(1) [of j cargo] row have j: "j < length cargo_df" "cargo_df ! j = cargo"
    by simp_all
  from Cons.prems(3) row obtain st1 where
    s1: "pair_step L g (TimeCostCalculator_init None) i (trucks_df ! i) j cargo st = Inr st1"
    and s2: "cargo_loop L g (TimeCostCalculator_init None) i (trucks_df ! i) rows st1 = Inr st'"
    by (auto elim: pybind_InrE)
  from Cons.prems(2) i j(1) s1 [folded j(2)] have inv1: "build_inv L trucks_df cargo_df st1"
    by (rule pair_step_inv)
  have r: "j' < length cargo_df \<and> cargo_df ! j' = cargo'"
    if "(j', cargo') \<in> set rows" for j' cargo'
  proof -
    from that have "(j', cargo') \<in> set (row # rows)" by simp
    then show ?thesis by (rule Cons.prems(1))
  qed
  from r inv1 s2 show ?case by (rule Cons.IH)
qed

lemma truck_loop_inv:
  assumes rows: "\<And>i truck. (i, truck) \<in> set rows \<Longrightarrow> i < length trucks_df \<and> trucks_df ! i = truck"
    and inv: "build_inv L trucks_df cargo_df st"
    and loop: "truck_loop L g (TimeCostCalculator_init None) rows cargo_df st = Inr st'"
  shows "build_inv L trucks_df cargo_df st'"
  using rows inv loop
proof (induction rows arbitrary: st)
  case Nil
  then show ?case by simp
next
  case (Cons row rows)
  obtain i truck where row: "row = (i, truck)" by (cases row)
  from Cons.prems(1) [of i truck] row have i: "i < length trucks_df" "trucks_df ! i = truck"
    by simp_all
  from Cons.prems(3) row obtain st1 where
    s1: "cargo_loop L g (TimeCostCalculator_init None) i truck (iterrows cargo_df) st = Inr st1"
    and s2: "truck_loop L g (TimeCostCalculator_init None) rows cargo_df st1 = Inr st'"
    by (auto elim: pybind_InrE)
  have "\<And>j cargo. (j, cargo) \<in> set (iterrows cargo_df) \<Longrightarrow> j < length cargo_df \<and> cargo_df ! j = cargo"
    by (simp add: in_iterrows_iff)
  with i(1) have inv1: "build_inv L trucks_df cargo_df st1"
    using Cons.prems(2) s1 [folded i(2)] by (rule cargo_loop_inv)
  have r: "i' < length trucks_df \<and> trucks_df ! i' = truck'"
    if "(i', truck') \<in> set rows" for i' truck'
  proof -
    from that have "(i', truck') \<in> set (row # rows)" by simp
    then show ?thesis by (rule Cons.prems(1))
  qed
  from r inv1 s2 show ?case by (rule Cons.IH)
qed

lemma build_inv_initial:
  "build_inv L trucks_df cargo_df (np_full (length trucks_df) (length cargo_df) Inf, Map.empty)"
  by (simp add: build_inv_def np_full_def list_all_iff)

lemma build_inv_result:
  assumes "calculate_cost_matrix L g trucks_df cargo_df = Inr st"
  shows "build_inv L trucks_df cargo_df st"
proof -
  have "\<And>i truck. (i, truck) \<in> set (iterrows trucks_df) \<Longrightarrow>
          i < length trucks_df \<and> trucks_df ! i = truck"
    by (simp add: in_iterrows_iff)
  then show ?thesis
    using build_inv_initial assms [unfolded calculate_cost_matrix_def Let_def]
    by (rule truck_loop_inv)
qed

subsection \<open>The returned assignment\<close>

lemma valid_assignments_filter:
  "valid_assignments M ps = Inr valid \<Longrightarrow> valid = filter (\<lambda>(r, c). M ! r ! c \<noteq> Inf) ps"
proof (induction ps arbitrary: valid)
  case Nil
  then show ?case by simp
next
  case (Cons p ps)
  obtain r c where p: "p = (r, c)" by (cases p)
  from Cons.prems p obtain tl where
    tl: "valid_assignments M ps = Inr tl"
    and v: "valid = (if M ! r ! c \<noteq> Inf then (r, c) # tl else tl)"
    by (auto split: if_splits elim!: pybind_InrE)
  from Cons.IH [OF tl] v p show ?case by simp
qed

lemma solve_and_filter_Inr:
  assumes "solve_and_filter L M = Inr valid"
  obtains row_ind col_ind where "linear_sum_assignment L M = Inr (row_ind, col_ind)"
    "valid = filter (\<lambda>(r, c). M ! r ! c \<noteq> Inf) (zip row_ind col_ind)"
proof -
  from assms obtain p where p: "linear_sum_assignment L M = Inr p"
    and v: "(case p of (row_ind, col_ind) \<Rightarrow> valid_assignments M (zip row_ind col_ind)) = Inr valid"
    unfolding solve_and_filter_def by (rule pybind_InrE)
  obtain row_ind col_ind where pc: "p = (row_ind, col_ind)" by (cases p)
  from v pc have "valid_assignments M (zip row_ind col_ind) = Inr valid" by simp
  then have "valid = filter (\<lambda>(r, c). M ! r ! c \<noteq> Inf) (zip row_ind col_ind)"
    by (rule valid_assignments_filter)
  with p pc that show ?thesis by simp
qed

lemma optimize_assignments_Inr:
  assumes "optimize_assignments L g trucks_df cargo_df = Inr (valid, time_info)"
  obtains M where "calculate_cost_matrix L g trucks_df cargo_df = Inr (M, time_info)"
    "solve_and_filter L M = Inr valid"
proof -
  from assms obtain st where b: "calculate_cost_matrix L g trucks_df cargo_df = Inr st"
    and r: "(case st of (cost_matrix, time_info) \<Rightarrow>
              pybind (solve_and_filter L cost_matrix) (\<lambda>valid. Inr (valid, time_info)))
            = Inr (valid, time_info)"
    unfolding optimize_assignments_def by (rule pybind_InrE)
  obtain M info where st: "st = (M, info)" by (cases st)
  from r st have "pybind (solve_and_filter L M) (\<lambda>valid. Inr (valid, info)) = Inr (valid, time_info)"
    by simp
  then have "solve_and_filter L M = Inr valid" "info = time_info"
    by (auto elim!: pybind_InrE)
  with b st that show ?thesis by simp
qed

lemma ncols_rows:
  assumes "list_all (\<lambda>row. length row = m) M" "M \<noteq> []"
  shows "ncols M = m"
  using assms by (cases M) (simp_all add: ncols_def)

text \<open>
  Whenever \<^verbatim>\<open>optimize_assignments\<close> returns, with a solver that keeps its
  contract on the matrix built, the returned list of pairs uses no truck index and no cargo
  index twice; every pair \<open>(i, j)\<close> in it is in range, passes the gate (the projected pickup
  time of truck \<open>i\<close> for cargo \<open>j\<close> is at most the parsed \<^verbatim>\<open>Available_To\<close> of cargo
  \<open>j\<close>), has its entry in the returned dictionary, and its cell of the matrix is not the
  sentinel.
\<close>

lemma returned_assignment_valid:
  assumes opt: "optimize_assignments L g trucks_df cargo_df = Inr (valid, time_info)"
    and contract: "\<forall>M info. calculate_cost_matrix L g trucks_df cargo_df = Inr (M, info) \<longrightarrow>
                     lsa_contract M (linear_sum_assignment L M)"
  shows "distinct (map fst valid) \<and> distinct (map snd valid) \<and>
         list_all (\<lambda>(i, j). i < length trucks_df \<and> j < length cargo_df \<and>
                     feasible L (trucks_df ! i) (cargo_df ! j) \<and>
                     (\<exists>e. time_info (i, j) = Some e \<and>
                          projected_pickup_time L (trucks_df ! i) (cargo_df ! j)
                            = Inr (info_pickup_time e))) valid \<and>
         (\<exists>M. calculate_cost_matrix L g trucks_df cargo_df = Inr (M, time_info) \<and>
              list_all (\<lambda>(i, j). M ! i ! j \<noteq> Inf) valid)"
proof -
  from opt obtain M where b: "calculate_cost_matrix L g trucks_df cargo_df = Inr (M, time_info)"
    and s: "solve_and_filter L M = Inr valid"
    by (rule optimize_assignments_Inr)
  from s obtain row_ind col_ind where
    lsa: "linear_sum_assignment L M = Inr (row_ind, col_ind)"
    and v: "valid = filter (\<lambda>(r, c). M ! r ! c \<noteq> Inf) (zip row_ind col_ind)"
    by (rule solve_and_filter_Inr)
  from contract b have "lsa_contract M (linear_sum_assignment L M)" by simp
  with lsa have m: "is_matching (length M) (ncols M) (zip row_ind col_ind)"
    by (simp add: lsa_contract_def Let_def)
  from b have inv: "build_inv L trucks_df cargo_df (M, time_info)"
    by (rule build_inv_result)
  from m have d1: "distinct (map fst valid)" and d2: "distinct (map snd valid)"
    unfolding v by (simp_all add: is_matching_def distinct_map_filter)
  have fin: "list_all (\<lambda>(i, j). M ! i ! j \<noteq> Inf) valid"
    unfolding v by (simp add: list_all_iff split_def)
  have pairs: "i < length trucks_df \<and> j < length cargo_df \<and>
                 feasible L (trucks_df ! i) (cargo_df ! j) \<and>
                 (\<exists>e. time_info (i, j) = Some e \<and>
                      projected_pickup_time L (trucks_df ! i) (cargo_df ! j)
                        = Inr (info_pickup_time e))"
    if "(i, j) \<in> set valid" for i j
  proof -
    from that v have mem: "(i, j) \<in> set (zip row_ind col_ind)" and c: "M ! i ! j \<noteq> Inf"
      by simp_all
    from m mem have "i < length M \<and> j < ncols M"
      by (auto simp: is_matching_def list_all_iff)
    then have i: "i < length M" and j: "j < ncols M" by simp_all
    from inv have len: "length M = length trucks_df"
      and rows: "list_all (\<lambda>row. length row = length cargo_df) M"
      by (simp_all add: build_inv_def)
    from i have "M \<noteq> []" by auto
    with rows have "ncols M = length cargo_df" by (rule ncols_rows)
    with j have j': "j < length cargo_df" by simp
    from i len have i': "i < length trucks_df" by simp
    from inv i' j' c have "feasible L (trucks_df ! i) (cargo_df ! j) \<and>
         (\<exists>e. time_info (i, j) = Some e \<and>
              M ! i ! j = Finite (info_total_cost e) \<and>
              projected_pickup_time L (trucks_df ! i) (cargo_df ! j) = Inr (info_pickup_time e))"
      by (simp add: build_inv_def)
    with i' j' show ?thesis by auto
  qed
  have "list_all (\<lambda>(i, j). i < length trucks_df \<and> j < length cargo_df \<and>
                     feasible L (trucks_df ! i) (cargo_df ! j) \<and>
                     (\<exists>e. time_info (i, j) = Some e \<and>
                          projected_pickup_time L (trucks_df ! i) (cargo_df ! j)
                            = Inr (info_pickup_time e))) valid"
    unfolding list_all_iff
  proof (rule ballI)
    fix x
    assume x: "x \<in> set valid"
    obtain i j where ij: "x = (i, j)" by (cases x)
    from x ij have "(i, j) \<in> set valid" by simp
    from pairs [OF this] ij
    show "case x of (i, j) \<Rightarrow> i < length trucks_df \<and> j < length cargo_df \<and>
                     feasible L (trucks_df ! i) (cargo_df ! j) \<and>
                     (\<exists>e. time_info (i, j) = Some e \<and>
                          projected_pickup_time L (trucks_df ! i) (cargo_df ! j)
                            = Inr (info_pickup_time e))"
      by simp
  qed
  with d1 d2 b fin show ?thesis by simp
qed

lemma example_build2:
  "\<exists>info. calculate_cost_matrix example_lib patched_globals
            [example_truck, example_truck\<lparr>price_per_km_Eur := PNum 1\<rparr>] [example_cargo]
          = Inr ([[Finite 146], [Finite 73]], info)"
  by (simp add: example_defs)

lemma exhaustive_lsa_2x1:
  "exhaustive_lsa [[Finite 146], [Finite 73]] = Inr ([1], [0])"
  by (simp add: exhaustive_lsa_def candidates_def ncols_def assignment_cost_def upt_rec
        numeral_2_eq_2)

lemma matching_2x1:
  assumes "is_matching (Suc (Suc 0)) (Suc 0) ps" "length ps = Suc 0"
  shows "ps = [(0, 0)] \<or> ps = [(1, 0)]"
proof -
  from assms(2) obtain p where ps: "ps = [p]"
    by (cases ps) simp_all
  obtain r c where p: "p = (r, c)" by (cases p)
  from assms(1) ps p have "r < Suc (Suc 0)" "c < Suc 0" by (simp_all add: is_matching_def)
  then have "r = 0 \<or> r = 1" "c = 0" by auto
  with ps p show ?thesis by auto
qed

lemma lsa_contract_2x1:
  "lsa_contract [[Finite 146], [Finite 73]] (Inr ([1], [0]))"
proof -
  have le: "np_le (Finite 73) (assignment_cost [[Finite 146], [Finite 73]] ps)"
    if "is_matching (Suc (Suc 0)) (Suc 0) ps" "length ps = Suc 0" for ps
    using matching_2x1 [OF that] by (auto simp: assignment_cost_def)
  have m: "is_matching (Suc (Suc 0)) (Suc 0) [(1, 0)]"
    by (simp add: is_matching_def)
  have c: "assignment_cost [[Finite 146], [Finite 73]] [(1, 0)] = Finite 73"
    by (simp add: assignment_cost_def)
  from le m c show ?thesis
    by (simp add: lsa_contract_def ncols_def)
qed

subsection \<open>No partial matching is returned\<close>


text \<open>
  A solver that keeps its contract raises ValueError on a two-by-two matrix whose second
  column holds only the sentinel: a matching of two pairs uses that column.
\<close>

lemma lsa_contract_unmatchable:
  assumes "lsa_contract [[Finite a, Inf], [Finite b, Inf]] r"
  shows "r = Inl ValueError"
proof (cases r)
  case (Inl e)
  with assms show ?thesis by (simp add: lsa_contract_def Let_def)
next
  case (Inr p)
  let ?M = "[[Finite a, Inf], [Finite b, Inf]]"
  obtain row_ind col_ind where p: "p = (row_ind, col_ind)" by (cases p)
  from assms Inr p have m: "is_matching (Suc (Suc 0)) (Suc (Suc 0)) (zip row_ind col_ind)"
    and l: "length row_ind = Suc (Suc 0)" "length col_ind = Suc (Suc 0)"
    and f: "assignment_cost ?M (zip row_ind col_ind) \<noteq> Inf"
    by (simp_all add: lsa_contract_def Let_def ncols_def)
  from l obtain r1 r2 where rs: "row_ind = [r1, r2]"
    by (cases row_ind; cases "tl row_ind") auto
  from l obtain c1 c2 where cs: "col_ind = [c1, c2]"
    by (cases col_ind; cases "tl col_ind") auto
  from m rs cs have r: "r1 < 2" "r2 < 2" and c: "c1 < 2" "c2 < 2" "c1 \<noteq> c2"
    by (auto simp: is_matching_def)
  from c have "c1 = 1 \<or> c2 = 1" by auto
  moreover from r have "r1 = 0 \<or> r1 = 1" "r2 = 0 \<or> r2 = 1" by auto
  ultimately have "assignment_cost ?M (zip row_ind col_ind) = Inf"
    using c by (auto simp: rs cs assignment_cost_def less_2_cases_iff)
  with f show ?thesis by simp
qed


subsection \<open>Optimality\<close>

lemma np_add_finite: "np_add a b \<noteq> Inf \<Longrightarrow> a \<noteq> Inf \<and> b \<noteq> Inf"
  by (cases a; cases b) simp_all

lemma assignment_cost_Cons:
  "assignment_cost M ((r, c) # ps) = np_add (M ! r ! c) (assignment_cost M ps)"
  by (simp add: assignment_cost_def)

lemma assignment_cost_finite:
  "assignment_cost M ps \<noteq> Inf \<Longrightarrow> filter (\<lambda>(r, c). M ! r ! c \<noteq> Inf) ps = ps"
proof (induction ps)
  case Nil
  show ?case by simp
next
  case (Cons p ps)
  obtain r c where p: "p = (r, c)" by (cases p)
  from Cons.prems p have "np_add (M ! r ! c) (assignment_cost M ps) \<noteq> Inf"
    by (simp add: assignment_cost_Cons)
  then have "M ! r ! c \<noteq> Inf \<and> assignment_cost M ps \<noteq> Inf"
    by (rule np_add_finite)
  with Cons.IH p show ?case by simp
qed

text \<open>
  Claim C5, as the solver has it. When the solver keeps its contract on a matrix and
  \<^verbatim>\<open>optimize_assignments\<close> gets a result from it, the filter removes nothing: the list
  returned is the solver's whole matching, of \<open>min (rows, columns)\<close> pairs, all with finite
  cost, and its total cost is at most that of every matching of the same size.
\<close>

theorem returned_assignment_optimal:
  assumes contract: "lsa_contract M (linear_sum_assignment L M)"
    and s: "solve_and_filter L M = Inr valid"
  shows "length valid = min (length M) (ncols M) \<and>
         is_matching (length M) (ncols M) valid \<and>
         assignment_cost M valid \<noteq> Inf \<and>
         (\<forall>ps. is_matching (length M) (ncols M) ps \<and> length ps = length valid \<longrightarrow>
               np_le (assignment_cost M valid) (assignment_cost M ps))"
proof -
  from s obtain row_ind col_ind where
    lsa: "linear_sum_assignment L M = Inr (row_ind, col_ind)"
    and v: "valid = filter (\<lambda>(r, c). M ! r ! c \<noteq> Inf) (zip row_ind col_ind)"
    by (rule solve_and_filter_Inr)
  from contract lsa have
    len: "length row_ind = min (length M) (ncols M)" "length col_ind = min (length M) (ncols M)"
    and m: "is_matching (length M) (ncols M) (zip row_ind col_ind)"
    and fin: "assignment_cost M (zip row_ind col_ind) \<noteq> Inf"
    and best: "\<forall>ps. is_matching (length M) (ncols M) ps \<and> length ps = min (length M) (ncols M) \<longrightarrow>
                np_le (assignment_cost M (zip row_ind col_ind)) (assignment_cost M ps)"
    by (simp_all add: lsa_contract_def Let_def)
  from fin v have v': "valid = zip row_ind col_ind"
    by (simp add: assignment_cost_finite)
  from len have "length valid = min (length M) (ncols M)"
    by (simp add: v')
  with m fin best show ?thesis by (simp add: v')
qed

theorem returned_assignment_optimal_witness:
  "solve_and_filter example_lib [[Finite 146], [Finite 73]] = Inr [(1, 0)] \<and>
   np_le (assignment_cost [[Finite 146], [Finite 73]] [(1, 0)])
         (assignment_cost [[Finite 146], [Finite 73]] [(0, 0)])"
proof -
  let ?M = "[[Finite 146], [Finite 73]]"
  have lsa: "linear_sum_assignment example_lib ?M = Inr ([1], [0])"
    by (simp add: example_lib_def exhaustive_lsa_2x1)
  then have s: "solve_and_filter example_lib ?M = Inr [(1, 0)]"
    by (simp add: solve_and_filter_def pybind_simps)
  from lsa lsa_contract_2x1 have "lsa_contract ?M (linear_sum_assignment example_lib ?M)"
    by simp
  from returned_assignment_optimal [OF this s]
  have "\<forall>ps. is_matching (length ?M) (ncols ?M) ps \<and> length ps = length [(1::nat, 0::nat)] \<longrightarrow>
               np_le (assignment_cost ?M [(1, 0)]) (assignment_cost ?M ps)"
    by (elim conjE)
  then have "is_matching (length ?M) (ncols ?M) [(0, 0)] \<and> length [(0::nat, 0::nat)] = length [(1::nat, 0::nat)] \<longrightarrow>
               np_le (assignment_cost ?M [(1, 0)]) (assignment_cost ?M [(0, 0)])"
    by (rule spec)
  then have "np_le (assignment_cost ?M [(1, 0)]) (assignment_cost ?M [(0, 0)])"
    by (simp add: is_matching_def ncols_def)
  with s show ?thesis by simp
qed

lemma matching_1x1:
  assumes "is_matching (Suc 0) (Suc 0) ps" "length ps = Suc 0"
  shows "ps = [(0, 0)]"
proof -
  from assms(2) obtain p where ps: "ps = [p]"
    by (cases ps) simp_all
  obtain r c where p: "p = (r, c)" by (cases p)
  from assms(1) ps p have "r < Suc 0" "c < Suc 0" by (simp_all add: is_matching_def)
  with ps p show ?thesis by simp
qed

lemma lsa_contract_1x1: "lsa_contract [[Finite c]] (Inr ([0], [0]))"
proof -
  have le: "np_le (Finite c) (assignment_cost [[Finite c]] ps)"
    if "is_matching (Suc 0) (Suc 0) ps" "length ps = Suc 0" for ps
    using matching_1x1 [OF that] by (simp add: assignment_cost_def)
  have m: "is_matching (Suc 0) (Suc 0) [(0, 0)]"
    by (simp add: is_matching_def)
  have c: "assignment_cost [[Finite c]] [(0, 0)] = Finite c"
    by (simp add: assignment_cost_def)
  from le m c show ?thesis
    by (simp add: lsa_contract_def ncols_def)
qed

text \<open>
  Claim C5 as stated fails: it also compares with matchings of smaller size. On the matrix
  with the single cell 5 the solver keeps its contract and the engine returns the pair
  \<open>(0, 0)\<close> of cost 5, while the empty matching, which is valid and smaller, costs 0.
\<close>

theorem smaller_matching_cheaper_counterexample:
  "lsa_contract [[Finite 5]] (linear_sum_assignment example_lib [[Finite 5]]) \<and>
   solve_and_filter example_lib [[Finite 5]] = Inr [(0, 0)] \<and>
   is_matching 1 1 [] \<and>
   length ([] :: (nat \<times> nat) list) \<le> length [(0 :: nat, 0 :: nat)] \<and>
   assignment_cost [[Finite 5]] [(0, 0)] = Finite 5 \<and>
   assignment_cost [[Finite 5]] [] = Finite 0 \<and>
   \<not> np_le (Finite 5) (Finite 0)"
proof -
  have lsa: "linear_sum_assignment example_lib [[Finite 5]] = Inr ([0], [0])"
    by (simp add: example_lib_def exhaustive_lsa_1x1)
  then have "solve_and_filter example_lib [[Finite 5]] = Inr [(0, 0)]"
    by (simp add: solve_and_filter_def pybind_simps)
  with lsa lsa_contract_1x1 [of 5] show ?thesis
    by (simp add: is_matching_def assignment_cost_def)
qed

subsection \<open>The sentinel\<close>

text \<open>
  A solver that keeps its contract raises ValueError on the one-by-one matrix whose cell is
  the sentinel: its only matching of full size has infinite cost.
\<close>

lemma lsa_contract_sentinel:
  assumes "lsa_contract [[Inf]] r"
  shows "r = Inl ValueError"
proof (cases r)
  case (Inl e)
  with assms show ?thesis by (simp add: lsa_contract_def Let_def)
next
  case (Inr p)
  obtain row_ind col_ind where p: "p = (row_ind, col_ind)" by (cases p)
  from assms Inr p have m: "is_matching (Suc 0) (Suc 0) (zip row_ind col_ind)"
    and l: "length row_ind = Suc 0" "length col_ind = Suc 0"
    and f: "assignment_cost [[Inf]] (zip row_ind col_ind) \<noteq> Inf"
    by (simp_all add: lsa_contract_def Let_def ncols_def)
  from l have "length (zip row_ind col_ind) = Suc 0" by simp
  with m have "zip row_ind col_ind = [(0, 0)]" by (rule matching_1x1)
  with f show ?thesis by (simp add: assignment_cost_def)
qed

text \<open>
  Claim C2, at a concrete input. The matrix is filled with \<^verbatim>\<open>np.inf\<close>, which is not a
  finite number. For the example truck and a cargo whose window ends at 00:00, before the
  projected pickup at 04:00, the build (with \<^verbatim>\<open>datetime\<close> bound) leaves the sentinel in
  the only cell, the solver raises ValueError on that matrix, and so does
  \<^verbatim>\<open>optimize_assignments\<close>: the filter for sentinel pairs is never reached. In the module's
  own namespace the same input raises NameError in the build.
\<close>

theorem sentinel_is_infinite:
  "np_full 1 1 Inf = [[Inf]] \<and>
   (\<exists>info. calculate_cost_matrix example_lib patched_globals [example_truck]
      [example_cargo\<lparr>Available_To := TStr ''2024-01-01 00:00:00''\<rparr>] = Inr ([[Inf]], info)) \<and>
   solve_and_filter example_lib [[Inf]] = Inl ValueError \<and>
   optimize_assignments example_lib patched_globals [example_truck]
      [example_cargo\<lparr>Available_To := TStr ''2024-01-01 00:00:00''\<rparr>] = Inl ValueError \<and>
   optimize_assignments example_lib optimizer_globals [example_truck]
      [example_cargo\<lparr>Available_To := TStr ''2024-01-01 00:00:00''\<rparr>] = Inl NameError"
proof -
  have lsa: "exhaustive_lsa [[Inf]] = Inl ValueError"
    by (simp add: exhaustive_lsa_def candidates_def ncols_def assignment_cost_def)
  have b: "calculate_cost_matrix example_lib patched_globals [example_truck]
      [example_cargo\<lparr>Available_To := TStr ''2024-01-01 00:00:00''\<rparr>] = Inr ([[Inf]], Map.empty)"
    by (simp add: example_defs)
  have n: "calculate_cost_matrix example_lib optimizer_globals [example_truck]
      [example_cargo\<lparr>Available_To := TStr ''2024-01-01 00:00:00''\<rparr>] = Inl NameError"
    by (simp add: example_defs)
  have s: "solve_and_filter example_lib [[Inf]] = Inl ValueError"
    by (simp add: solve_and_filter_def example_lib_def lsa pybind_simps)
  from b s n show ?thesis
    by (simp add: optimize_assignments_def pybind_simps np_full_def)
qed

end
